theory Spec2Isabelle
  imports Main "HOL-Library.Word" "HOL-Library.Sublist"
begin

section \<open>The account-creation form of \<^verbatim>\<open>create-user-form.tsx\<close>\<close>

text \<open>
  The component \<^verbatim>\<open>CreateUserForm\<close> keeps four pieces of React state (username,
  password, apiError, isLoading), derives the list of unmet password criteria from the
  password, and submits the credentials with \<^verbatim>\<open>fetch\<close>. This theory embeds the
  rule list, the derived values, the submit handler with its try/catch/finally, and the
  gating of the handler by the \<^verbatim>\<open>disabled\<close> attributes of the rendered controls.
\<close>

subsection \<open>JavaScript strings\<close>

text \<open>
  A JavaScript string is a sequence of UTF-16 code units; \<^verbatim>\<open>p.length\<close> counts code
  units, and a regular expression without the \<^verbatim>\<open>u\<close> flag matches code unit by code
  unit. The labels and messages of the source are ASCII literals and are kept as HOL
  strings; \<open>js\<close> turns such a literal into the code units it denotes.
\<close>

type_synonym jsstring = "16 word list"

definition js :: "string \<Rightarrow> jsstring" where
  "js s = map (\<lambda>c. of_nat (of_char c)) s"

text \<open>
  The character classes of the four regular expressions. \<^verbatim>\<open>\s\<close> is the union of
  ECMAScript's WhiteSpace and LineTerminator productions: TAB, LF, VT, FF, CR, SPACE,
  NBSP, U+1680, U+2000 to U+200A, U+2028, U+2029, U+202F, U+205F, U+3000 and U+FEFF.
  \<^verbatim>\<open>\d\<close> is \<^verbatim>\<open>[0-9]\<close>.
\<close>

definition is_whitespace :: "16 word \<Rightarrow> bool" where
  "is_whitespace c \<longleftrightarrow>
     c = 0x09 \<or> c = 0x0A \<or> c = 0x0B \<or> c = 0x0C \<or> c = 0x0D \<or> c = 0x20 \<or> c = 0xA0 \<or>
     c = 0x1680 \<or> (0x2000 \<le> c \<and> c \<le> 0x200A) \<or> c = 0x2028 \<or> c = 0x2029 \<or>
     c = 0x202F \<or> c = 0x205F \<or> c = 0x3000 \<or> c = 0xFEFF"

definition is_digit :: "16 word \<Rightarrow> bool" where
  "is_digit c \<longleftrightarrow> 0x30 \<le> c \<and> c \<le> 0x39"

definition is_upper :: "16 word \<Rightarrow> bool" where
  "is_upper c \<longleftrightarrow> 0x41 \<le> c \<and> c \<le> 0x5A"

definition is_lower :: "16 word \<Rightarrow> bool" where
  "is_lower c \<longleftrightarrow> 0x61 \<le> c \<and> c \<le> 0x7A"

text \<open>
  \<^verbatim>\<open>/C/.test(p)\<close> for a one-character class \<open>C\<close>: some code unit of \<open>p\<close> is in the
  class. The expressions carry no \<^verbatim>\<open>g\<close> or \<^verbatim>\<open>y\<close> flag, so \<^verbatim>\<open>test\<close> keeps no state
  between calls.
\<close>

definition regex_test :: "(16 word \<Rightarrow> bool) \<Rightarrow> jsstring \<Rightarrow> bool" where
  "regex_test cls p = list_ex cls p"

text \<open>
  \<^verbatim>\<open>String.prototype.trim\<close> removes leading and trailing code units of the same set
  as \<^verbatim>\<open>\s\<close>.
\<close>

definition trim :: "jsstring \<Rightarrow> jsstring" where
  "trim s = rev (dropWhile is_whitespace (rev (dropWhile is_whitespace s)))"

text \<open>
  \<^verbatim>\<open>String.prototype.includes\<close>: the search string occurs at some position of the
  string, tried from position 0 upwards.
\<close>

fun string_includes :: "jsstring \<Rightarrow> jsstring \<Rightarrow> bool" where
  "string_includes [] t = (t = [])"
| "string_includes (c # s) t = (prefix t (c # s) \<or> string_includes s t)"

subsection \<open>The rule list \<^verbatim>\<open>PASSWORD_CRITERIA\<close> and \<^verbatim>\<open>activeCriteria\<close>\<close>

record criterion =
  id_c :: string
  label :: string
  validate :: "jsstring \<Rightarrow> bool"

definition min_length :: criterion where
  "min_length = \<lparr>id_c = ''min-length'',
     label = ''Password must be at least 10 characters long'',
     validate = (\<lambda>p. length p \<ge> 10)\<rparr>"

definition max_length :: criterion where
  "max_length = \<lparr>id_c = ''max-length'',
     label = ''Password must be at most 24 characters long'',
     validate = (\<lambda>p. length p \<le> 24)\<rparr>"

definition no_spaces :: criterion where
  "no_spaces = \<lparr>id_c = ''no-spaces'',
     label = ''Password cannot contain spaces'',
     validate = (\<lambda>p. \<not> regex_test is_whitespace p)\<rparr>"

definition has_number :: criterion where
  "has_number = \<lparr>id_c = ''has-number'',
     label = ''Password must contain at least one number'',
     validate = (\<lambda>p. regex_test is_digit p)\<rparr>"

definition has_upper :: criterion where
  "has_upper = \<lparr>id_c = ''has-upper'',
     label = ''Password must contain at least one uppercase letter'',
     validate = (\<lambda>p. regex_test is_upper p)\<rparr>"

definition has_lower :: criterion where
  "has_lower = \<lparr>id_c = ''has-lower'',
     label = ''Password must contain at least one lowercase letter'',
     validate = (\<lambda>p. regex_test is_lower p)\<rparr>"

definition PASSWORD_CRITERIA :: "criterion list" where
  "PASSWORD_CRITERIA = [min_length, max_length, no_spaces, has_number, has_upper, has_lower]"

text \<open>
  \<^verbatim>\<open>activeCriteria\<close>: \<^verbatim>\<open>!password\<close> holds exactly for the empty string, where every
  label is returned; otherwise the labels of the criteria whose \<^verbatim>\<open>validate\<close> fails.
\<close>

definition activeCriteria :: "jsstring \<Rightarrow> string list" where
  "activeCriteria password =
     (if password = [] then map label PASSWORD_CRITERIA
      else map label (filter (\<lambda>c. \<not> validate c password) PASSWORD_CRITERIA))"

subsection \<open>Component state and derived values\<close>

text \<open>
  The four \<^verbatim>\<open>useState\<close> cells of the component. \<^verbatim>\<open>apiError\<close> holds \<^verbatim>\<open>null\<close>
  (\<open>None\<close>) or one of the message literals.
\<close>

record form_state =
  username :: jsstring
  password :: jsstring
  apiError :: "string option"
  isLoading :: bool

definition isPasswordValid :: "form_state \<Rightarrow> bool" where
  "isPasswordValid s \<longleftrightarrow> length (activeCriteria (password s)) = 0 \<and> length (password s) > 0"

definition isFormValid :: "form_state \<Rightarrow> bool" where
  "isFormValid s \<longleftrightarrow> length (trim (username s)) > 0 \<and> isPasswordValid s"

subsection \<open>The outside world: requests, responses, parsed JSON\<close>

text \<open>
  The JSON body the handler posts, \<^verbatim>\<open>JSON.stringify({ username, password })\<close>.
\<close>

record request =
  req_username :: jsstring
  req_password :: jsstring

text \<open>
  A value produced by \<^verbatim>\<open>response.json()\<close>. An object is the list of its own
  properties; a parsed object has each key once. The payload of a number is never read by
  the handler, an integer stands for it.
\<close>

datatype json =
  JNull
| JBool bool
| JNumber int
| JString jsstring
| JArray "json list"
| JObject "(jsstring \<times> json) list"

text \<open>
  What the handler reads of a \<^verbatim>\<open>Response\<close>: the status, and what
  \<^verbatim>\<open>response.json()\<close> settles to, \<open>None\<close> when that promise rejects (the body is
  not JSON, or cannot be read).
\<close>

record response =
  status :: nat
  json_body :: "json option"

definition ok :: "response \<Rightarrow> bool" where
  "ok r \<longleftrightarrow> 200 \<le> status r \<and> status r \<le> 299"

text \<open>How the promise returned by \<^verbatim>\<open>fetch\<close> settles.\<close>

datatype fetch_result = Rejects | Resolves response

text \<open>
  The component's state together with the two effects the handler has outside it: the
  requests it has sent, and the arguments it has passed to the \<^verbatim>\<open>setUserWasCreated\<close>
  prop, both in order.
\<close>

record world =
  st :: form_state
  fetches :: "request list"
  created :: "bool list"

subsection \<open>Computations that may throw\<close>

datatype js_error = TypeError | FetchFailed

type_synonym 'a js_comp = "world \<Rightarrow> (js_error + 'a) \<times> world"

definition js_return :: "'a \<Rightarrow> 'a js_comp" where
  "js_return x = (\<lambda>w. (Inr x, w))"

definition js_throw :: "js_error \<Rightarrow> 'a js_comp" where
  "js_throw e = (\<lambda>w. (Inl e, w))"

definition js_bind :: "'a js_comp \<Rightarrow> ('a \<Rightarrow> 'b js_comp) \<Rightarrow> 'b js_comp" where
  "js_bind m f = (\<lambda>w. case m w of (Inl e, w') \<Rightarrow> (Inl e, w') | (Inr x, w') \<Rightarrow> f x w')"

definition js_lift :: "js_error + 'a \<Rightarrow> 'a js_comp" where
  "js_lift r = (\<lambda>w. (r, w))"

text \<open>
  \<^verbatim>\<open>try { body } catch (err) { handler } finally { final }\<close>: an exception of the body
  goes to the handler; the final block runs in every case, and an exception of the handler
  or of the final block leaves the statement.
\<close>

definition try_catch_finally ::
  "unit js_comp \<Rightarrow> (js_error \<Rightarrow> unit js_comp) \<Rightarrow> unit js_comp \<Rightarrow> unit js_comp" where
  "try_catch_finally body handler final w =
     (let (r1, w1) = body w;
          (r2, w2) = (case r1 of Inl e \<Rightarrow> handler e w1 | Inr u \<Rightarrow> (Inr u, w1));
          (r3, w3) = final w2
      in case r3 of Inl e \<Rightarrow> (Inl e, w3) | Inr u \<Rightarrow> (r2, w3))"

text \<open>The state setters and the prop.\<close>

definition setApiError :: "string option \<Rightarrow> unit js_comp" where
  "setApiError v = (\<lambda>w. (Inr (), w\<lparr>st := (st w)\<lparr>apiError := v\<rparr>\<rparr>))"

definition setIsLoading :: "bool \<Rightarrow> unit js_comp" where
  "setIsLoading b = (\<lambda>w. (Inr (), w\<lparr>st := (st w)\<lparr>isLoading := b\<rparr>\<rparr>))"

definition setUserWasCreated :: "bool \<Rightarrow> unit js_comp" where
  "setUserWasCreated b = (\<lambda>w. (Inr (), w\<lparr>created := created w @ [b]\<rparr>))"

text \<open>
  \<^verbatim>\<open>await fetch(...)\<close>: the request goes out, and the await either yields the response
  or throws the rejection.
\<close>

definition send :: "request \<Rightarrow> unit js_comp" where
  "send req = (\<lambda>w. (Inr (), w\<lparr>fetches := fetches w @ [req]\<rparr>))"

definition await_fetch :: "fetch_result \<Rightarrow> response js_comp" where
  "await_fetch net = (case net of Rejects \<Rightarrow> js_throw FetchFailed | Resolves r \<Rightarrow> js_return r)"

definition fetch :: "fetch_result \<Rightarrow> request \<Rightarrow> response js_comp" where
  "fetch net req = js_bind (send req) (\<lambda>_. await_fetch net)"

text \<open>
  \<^verbatim>\<open>await response.json().catch(() => ({}))\<close>: a rejection is replaced by the empty
  object, so this never throws.
\<close>

definition json_or_empty :: "response \<Rightarrow> json" where
  "json_or_empty r = (case json_body r of None \<Rightarrow> JObject [] | Some v \<Rightarrow> v)"

text \<open>
  \<^verbatim>\<open>errorData.message\<close>: reading a property of \<^verbatim>\<open>null\<close> throws a TypeError; an object
  gives its own property or \<^verbatim>\<open>undefined\<close> (\<open>None\<close>); a string, number, boolean or
  array has no such property and gives \<^verbatim>\<open>undefined\<close>.
\<close>

fun get_message :: "json \<Rightarrow> js_error + json option" where
  "get_message JNull = Inl TypeError"
| "get_message (JObject kvs) = Inr (map_of kvs (js ''message''))"
| "get_message (JBool b) = Inr None"
| "get_message (JNumber n) = Inr None"
| "get_message (JString s) = Inr None"
| "get_message (JArray xs) = Inr None"

text \<open>
  \<^verbatim>\<open>m?.includes(t)\<close> read as a condition. On \<^verbatim>\<open>undefined\<close> and \<^verbatim>\<open>null\<close> the optional
  chain yields \<^verbatim>\<open>undefined\<close>, which is falsy. A string answers with
  \<^verbatim>\<open>String.prototype.includes\<close>, an array with \<^verbatim>\<open>Array.prototype.includes\<close> (some
  element is the string \<open>t\<close> itself). A boolean, a number or an object parsed from JSON has
  no callable \<^verbatim>\<open>includes\<close>, so the call throws a TypeError.
\<close>

fun optional_includes :: "json option \<Rightarrow> jsstring \<Rightarrow> js_error + bool" where
  "optional_includes None t = Inr False"
| "optional_includes (Some JNull) t = Inr False"
| "optional_includes (Some (JString s)) t = Inr (string_includes s t)"
| "optional_includes (Some (JArray xs)) t = Inr (list_ex (\<lambda>x. x = JString t) xs)"
| "optional_includes (Some (JBool b)) t = Inl TypeError"
| "optional_includes (Some (JNumber n)) t = Inl TypeError"
| "optional_includes (Some (JObject kvs)) t = Inl TypeError"

text \<open>
  \<^verbatim>\<open>response.status === 400 && errorData.message?.includes('not allowed')\<close>: the right
  operand is evaluated only when the status is 400.
\<close>

definition is_not_allowed :: "response \<Rightarrow> json \<Rightarrow> js_error + bool" where
  "is_not_allowed r errorData =
     (if status r = 400 then
        (case get_message errorData of
           Inl e \<Rightarrow> Inl e
         | Inr m \<Rightarrow> optional_includes m (js ''not allowed''))
      else Inr False)"

subsection \<open>\<^verbatim>\<open>handleSubmit\<close>\<close>

text \<open>
  The statements of the try block after \<^verbatim>\<open>await fetch\<close> has produced a response.
\<close>

definition on_response :: "response \<Rightarrow> unit js_comp" where
  "on_response r =
     (if ok r then setUserWasCreated True
      else
        (let errorData = json_or_empty r in
         if status r = 401 \<or> status r = 403 then
           setApiError (Some ''Not authenticated to access this resource.'')
         else js_bind (js_lift (is_not_allowed r errorData)) (\<lambda>not_allowed.
           if not_allowed then
             setApiError
               (Some ''Sorry, the entered password is not allowed, please try a different one.'')
           else if status r = 500 then
             setApiError (Some ''Something went wrong, please try again.'')
           else
             setApiError (Some ''Something went wrong, please try again.''))))"

text \<open>
  The handler, run to completion against the way \<open>net\<close> in which its \<^verbatim>\<open>fetch\<close> settles.
  \<^verbatim>\<open>isFormValid\<close>, \<^verbatim>\<open>username\<close> and \<^verbatim>\<open>password\<close> are the values of the render the
  handler belongs to, that is of the state in which it is invoked.
  \<^verbatim>\<open>e.preventDefault()\<close> acts on the event only. The result is \<open>Inr ()\<close> when the
  handler's promise fulfils and \<open>Inl e\<close> when it rejects with \<open>e\<close>.
\<close>

definition handleSubmit :: "fetch_result \<Rightarrow> unit js_comp" where
  "handleSubmit net w =
     (let valid = isFormValid (st w);
          body = \<lparr>req_username = username (st w), req_password = password (st w)\<rparr>
      in js_bind (setApiError None) (\<lambda>_.
           if \<not> valid then js_return ()
           else js_bind (setIsLoading True) (\<lambda>_.
             try_catch_finally
               (js_bind (fetch net body) on_response)
               (\<lambda>err. setApiError (Some ''Something went wrong, please try again.''))
               (setIsLoading False)))) w"

text \<open>
  The handler is asynchronous: it runs up to \<^verbatim>\<open>await fetch(...)\<close>, and the rest runs
  when the promise settles. \<open>handleSubmit_start\<close> is the part before the await; it
  returns the request it has sent, if any. \<open>handleSubmit_resume\<close> is the part from the
  await on, inside the try statement. Sending the request cannot throw (\<^verbatim>\<open>fetch\<close>
  reports a failure by rejecting its promise), so the try statement is entered here at
  the await. The second await, of \<^verbatim>\<open>response.json()\<close>, belongs to the resumed part.
\<close>

definition handleSubmit_start :: "world \<Rightarrow> request option \<times> world" where
  "handleSubmit_start w =
     (let valid = isFormValid (st w);
          body = \<lparr>req_username = username (st w), req_password = password (st w)\<rparr>;
          w1 = snd (setApiError None w)
      in if \<not> valid then (None, w1)
         else (Some body, snd (send body (snd (setIsLoading True w1)))))"

definition handleSubmit_resume :: "fetch_result \<Rightarrow> unit js_comp" where
  "handleSubmit_resume net =
     try_catch_finally
       (js_bind (await_fetch net) on_response)
       (\<lambda>err. setApiError (Some ''Something went wrong, please try again.''))
       (setIsLoading False)"

subsection \<open>The rendered controls\<close>

text \<open>
  What can happen to a mounted form. Both inputs carry \<^verbatim>\<open>disabled={isLoading}\<close> and
  call \<^verbatim>\<open>setUsername\<close> or \<^verbatim>\<open>setPassword\<close> on change. The only submit control is
  the button, with \<^verbatim>\<open>disabled={isLoading || !isFormValid}\<close>; a disabled button takes no
  click and blocks submission by the Enter key, so a submit gesture reaches
  \<^verbatim>\<open>handleSubmit\<close> only while the button is enabled. A pending \<^verbatim>\<open>fetch\<close> may settle
  at any time. A configuration is the world together with the requests whose handler is
  still suspended at its await.
\<close>

datatype event =
  ChangeUsername jsstring
| ChangePassword jsstring
| SubmitClick
| FetchSettles fetch_result

record config =
  view :: world
  inflight :: "request list"

definition input_disabled :: "form_state \<Rightarrow> bool" where
  "input_disabled s \<longleftrightarrow> isLoading s"

definition button_disabled :: "form_state \<Rightarrow> bool" where
  "button_disabled s \<longleftrightarrow> isLoading s \<or> \<not> isFormValid s"

definition setUsername :: "jsstring \<Rightarrow> world \<Rightarrow> world" where
  "setUsername v w = w\<lparr>st := (st w)\<lparr>username := v\<rparr>\<rparr>"

definition setPassword :: "jsstring \<Rightarrow> world \<Rightarrow> world" where
  "setPassword v w = w\<lparr>st := (st w)\<lparr>password := v\<rparr>\<rparr>"

fun ui_step :: "event \<Rightarrow> config \<Rightarrow> config" where
  "ui_step (ChangeUsername v) c =
     (if input_disabled (st (view c)) then c else c\<lparr>view := setUsername v (view c)\<rparr>)"
| "ui_step (ChangePassword v) c =
     (if input_disabled (st (view c)) then c else c\<lparr>view := setPassword v (view c)\<rparr>)"
| "ui_step SubmitClick c =
     (if button_disabled (st (view c)) then c
      else (case handleSubmit_start (view c) of
              (None, w) \<Rightarrow> c\<lparr>view := w\<rparr>
            | (Some req, w) \<Rightarrow> \<lparr>view = w, inflight = inflight c @ [req]\<rparr>))"
| "ui_step (FetchSettles net) c =
     (case inflight c of
        [] \<Rightarrow> c
      | req # rest \<Rightarrow> \<lparr>view = snd (handleSubmit_resume net (view c)), inflight = rest\<rparr>)"

fun run :: "event list \<Rightarrow> config \<Rightarrow> config" where
  "run [] c = c"
| "run (e # es) c = run es (ui_step e c)"

text \<open>The freshly mounted form: \<^verbatim>\<open>useState('')\<close>, \<^verbatim>\<open>useState(null)\<close>, \<^verbatim>\<open>useState(false)\<close>.\<close>

definition initial :: config where
  "initial = \<lparr>view = \<lparr>st = \<lparr>username = [], password = [], apiError = None, isLoading = False\<rparr>,
                        fetches = [], created = []\<rparr>,
               inflight = []\<rparr>"

subsection \<open>The classification table as the specification words it\<close>

text \<open>
  The message field of a parsed body, when the body is an object and the field a string.
\<close>

fun message_string :: "json option \<Rightarrow> jsstring option" where
  "message_string (Some (JObject kvs)) =
     (case map_of kvs (js ''message'') of Some (JString s) \<Rightarrow> Some s | _ \<Rightarrow> None)"
| "message_string _ = None"

text \<open>
  The table of the specification, in its order of precedence: 401 or 403; then 400 with a
  message field that contains the substring; then everything else, an un-parseable body
  (\<open>None\<close>) included.
\<close>

definition spec_lastError :: "nat \<Rightarrow> json option \<Rightarrow> string" where
  "spec_lastError code body =
     (if code = 401 \<or> code = 403 then ''Not authenticated to access this resource.''
      else if code = 400 \<and>
              (case message_string body of
                 Some m \<Rightarrow> sublist (js ''not allowed'') m
               | None \<Rightarrow> False)
        then ''Sorry, the entered password is not allowed, please try a different one.''
      else ''Something went wrong, please try again.'')"

text \<open>
  The same table with the second row widened to what \<^verbatim>\<open>includes\<close> answers on an
  array: the message field is a string that contains the substring, or an array with the
  string \<^verbatim>\<open>not allowed\<close> among its elements.
\<close>

fun message_array :: "json option \<Rightarrow> json list option" where
  "message_array (Some (JObject kvs)) =
     (case map_of kvs (js ''message'') of Some (JArray xs) \<Rightarrow> Some xs | _ \<Rightarrow> None)"
| "message_array _ = None"

definition lastError_table :: "nat \<Rightarrow> json option \<Rightarrow> string" where
  "lastError_table code body =
     (if code = 401 \<or> code = 403 then ''Not authenticated to access this resource.''
      else if code = 400 \<and>
              ((case message_string body of
                  Some m \<Rightarrow> sublist (js ''not allowed'') m
                | None \<Rightarrow> False) \<or>
               (case message_array body of
                  Some xs \<Rightarrow> JString (js ''not allowed'') \<in> set xs
                | None \<Rightarrow> False))
        then ''Sorry, the entered password is not allowed, please try a different one.''
      else ''Something went wrong, please try again.'')"

subsection \<open>Example inputs\<close>

definition alice :: jsstring where
  "alice = js ''alice''"

definition good_password :: jsstring where
  "good_password = js ''Abcdefghi1''"

definition filled :: world where
  "filled = \<lparr>st = \<lparr>username = alice, password = good_password, apiError = None,
                    isLoading = False\<rparr>,
             fetches = [], created = []\<rparr>"

text \<open>Replies of the endpoint used as examples below.\<close>

definition ok_reply :: response where
  "ok_reply = \<lparr>status = 200, json_body = None\<rparr>"

definition not_allowed_reply :: response where
  "not_allowed_reply = \<lparr>status = 400,
     json_body = Some (JObject [(js ''message'', JString (js ''password not allowed''))])\<rparr>"

definition array_reply :: response where
  "array_reply = \<lparr>status = 400,
     json_body = Some (JObject [(js ''message'', JArray [JString (js ''not allowed'')])])\<rparr>"

definition garbage_400 :: response where
  "garbage_400 = \<lparr>status = 400, json_body = None\<rparr>"

definition garbage_401 :: response where
  "garbage_401 = \<lparr>status = 401, json_body = None\<rparr>"

definition null_400 :: response where
  "null_400 = \<lparr>status = 400, json_body = Some JNull\<rparr>"


definition stale :: world where
  "stale = \<lparr>st = \<lparr>username = [], password = good_password,
                   apiError = Some ''Something went wrong, please try again.'',
                   isLoading = False\<rparr>,
            fetches = [\<lparr>req_username = alice, req_password = good_password\<rparr>],
            created = []\<rparr>"

subsection \<open>The invariant of the in-flight requests\<close>



section \<open>The rule engine\<close>

lemmas criteria_defs = PASSWORD_CRITERIA_def min_length_def max_length_def no_spaces_def
  has_number_def has_upper_def has_lower_def

lemma regex_test_iff: "regex_test cls p \<longleftrightarrow> (\<exists>c\<in>set p. cls c)"
  by (simp add: regex_test_def list_ex_iff)

lemma labels:
  "map label PASSWORD_CRITERIA =
     [''Password must be at least 10 characters long'',
      ''Password must be at most 24 characters long'',
      ''Password cannot contain spaces'',
      ''Password must contain at least one number'',
      ''Password must contain at least one uppercase letter'',
      ''Password must contain at least one lowercase letter'']"
  by (simp add: criteria_defs)

lemma distinct_labels: "distinct (map label PASSWORD_CRITERIA)"
  unfolding labels by simp

lemma mem_filter_label:
  "distinct (map f cs) \<Longrightarrow> c \<in> set cs \<Longrightarrow> f c \<in> set (map f (filter P cs)) \<longleftrightarrow> P c"
  by (auto simp: distinct_map inj_on_def)

lemma activeCriteria_Nil_conv:
  "activeCriteria p = [] \<longleftrightarrow>
     10 \<le> length p \<and> length p \<le> 24 \<and> \<not> regex_test is_whitespace p \<and>
     regex_test is_digit p \<and> regex_test is_upper p \<and> regex_test is_lower p"
proof (cases "p = []")
  case True
  then show ?thesis by (simp add: activeCriteria_def labels)
next
  case False
  have "activeCriteria p = [] \<longleftrightarrow> (\<forall>c\<in>set PASSWORD_CRITERIA. validate c p)"
    using False by (simp add: activeCriteria_def filter_empty_conv)
  also have "\<dots> \<longleftrightarrow> 10 \<le> length p \<and> length p \<le> 24 \<and> \<not> regex_test is_whitespace p \<and>
      regex_test is_digit p \<and> regex_test is_upper p \<and> regex_test is_lower p"
    by (simp add: criteria_defs)
  finally show ?thesis .
qed

lemma alice_units: "alice = [97, 108, 105, 99, 101]"
  by (simp add: alice_def js_def)

lemma good_password_units: "good_password = [65, 98, 99, 100, 101, 102, 103, 104, 105, 49]"
  by (simp add: good_password_def js_def)

lemma good_password_active [simp]: "activeCriteria good_password = []"
  unfolding activeCriteria_Nil_conv good_password_units
  by (simp add: regex_test_def is_whitespace_def is_digit_def is_upper_def is_lower_def)

lemma good_password_nonempty [simp]: "good_password \<noteq> []"
  by (simp add: good_password_units)

lemma trim_alice [simp]: "trim alice = alice"
  by (simp add: trim_def alice_units is_whitespace_def)

lemma alice_nonempty [simp]: "alice \<noteq> []"
  by (simp add: alice_units)

lemma trim_Nil [simp]: "trim [] = []"
  by (simp add: trim_def)

text \<open>
  Claim C8. On the empty string \<open>activeCriteria\<close> returns the six labels, in the order in
  which \<open>PASSWORD_CRITERIA\<close> declares them.
\<close>

theorem activeCriteria_empty_string:
  "activeCriteria [] =
     [''Password must be at least 10 characters long'',
      ''Password must be at most 24 characters long'',
      ''Password cannot contain spaces'',
      ''Password must contain at least one number'',
      ''Password must contain at least one uppercase letter'',
      ''Password must contain at least one lowercase letter'']"
  by (simp add: activeCriteria_def labels)

text \<open>
  Claim C1. For every password \<open>p\<close> the list of unmet criteria is empty exactly when \<open>p\<close>
  meets all six rules at once: at least 10 and at most 24 code units, no whitespace code
  unit, some decimal digit (\<open>0\<close> to \<open>9\<close>, 0x30 to 0x39), some uppercase Latin letter (0x41 to
  0x5A) and some lowercase Latin letter (0x61 to 0x7A). Length is \<^verbatim>\<open>p.length\<close>, the
  number of UTF-16 code units.
\<close>

theorem activeCriteria_empty_iff_all_rules:
  "activeCriteria p = [] \<longleftrightarrow>
     10 \<le> length p \<and> length p \<le> 24 \<and>
     \<not> (\<exists>c\<in>set p. is_whitespace c) \<and>
     (\<exists>c\<in>set p. 0x30 \<le> c \<and> c \<le> 0x39) \<and>
     (\<exists>c\<in>set p. 0x41 \<le> c \<and> c \<le> 0x5A) \<and>
     (\<exists>c\<in>set p. 0x61 \<le> c \<and> c \<le> 0x7A)"
  unfolding activeCriteria_Nil_conv
  by (simp add: regex_test_iff is_digit_def is_upper_def is_lower_def)

theorem activeCriteria_empty_iff_all_rules_witness:
  "activeCriteria (js ''Abcdefghi1'') = [] \<and> activeCriteria (js ''Abc defghi1'') \<noteq> []"
  using activeCriteria_empty_iff_all_rules [of "js ''Abcdefghi1''"]
    activeCriteria_empty_iff_all_rules [of "js ''Abc defghi1''"]
  by (simp add: js_def is_whitespace_def)

text \<open>
  Claim C9. For a non-empty password every criterion contributes on its own: the result
  is the concatenation, over \<open>PASSWORD_CRITERIA\<close> in its declared order, of nothing for a
  criterion whose \<open>validate\<close> holds of the whole password and of its label otherwise. So
  the result is a subsequence of the declared labels whatever the password, and the label
  of a criterion is in it exactly when that criterion's \<open>validate\<close> is false; no criterion
  hides another.
\<close>

theorem activeCriteria_independent_in_order:
  assumes "p \<noteq> []"
  shows "activeCriteria p =
           concat (map (\<lambda>c. if validate c p then [] else [label c]) PASSWORD_CRITERIA) \<and>
         subseq (activeCriteria p) (map label PASSWORD_CRITERIA) \<and>
         (\<forall>c\<in>set PASSWORD_CRITERIA. label c \<in> set (activeCriteria p) \<longleftrightarrow> \<not> validate c p)"
proof -
  have eq: "activeCriteria p = map label (filter (\<lambda>c. \<not> validate c p) PASSWORD_CRITERIA)"
    using assms by (simp add: activeCriteria_def)
  have a: "map label (filter (\<lambda>c. \<not> validate c p) cs) =
      concat (map (\<lambda>c. if validate c p then [] else [label c]) cs)" for cs
    by (induction cs) simp_all
  have b: "subseq (map label (filter (\<lambda>c. \<not> validate c p) PASSWORD_CRITERIA))
      (map label PASSWORD_CRITERIA)"
    by (intro subseq_map subseq_filter_left)
  have c: "label c \<in> set (map label (filter (\<lambda>c. \<not> validate c p) PASSWORD_CRITERIA)) \<longleftrightarrow>
      \<not> validate c p" if "c \<in> set PASSWORD_CRITERIA" for c
    by (rule mem_filter_label [OF distinct_labels that])
  show ?thesis
    unfolding eq using a b c by blast
qed

theorem activeCriteria_independent_in_order_witness:
  "js ''short1A'' \<noteq> [] \<and>
   activeCriteria (js ''short1A'') = [''Password must be at least 10 characters long''] \<and>
   activeCriteria (js ''a b'') =
     [''Password must be at least 10 characters long'',
      ''Password cannot contain spaces'',
      ''Password must contain at least one number'',
      ''Password must contain at least one uppercase letter'']"
proof -
  have a: "js ''short1A'' \<noteq> []" and b: "js ''a b'' \<noteq> []"
    by (simp_all add: js_def)
  from activeCriteria_independent_in_order [OF a] activeCriteria_independent_in_order [OF b] a
  show ?thesis
    by (simp add: js_def criteria_defs regex_test_def is_whitespace_def is_digit_def
        is_upper_def is_lower_def)
qed

section \<open>The submit handler\<close>

lemmas js_defs = js_return_def js_throw_def js_bind_def js_lift_def try_catch_finally_def
  setApiError_def setIsLoading_def setUserWasCreated_def send_def await_fetch_def fetch_def

lemma string_includes_sublist: "string_includes s t \<longleftrightarrow> sublist t s"
  by (induction s) (simp_all add: sublist_Cons_right)

lemma isFormValid_iff:
  "isFormValid s \<longleftrightarrow>
     trim (username s) \<noteq> [] \<and> activeCriteria (password s) = [] \<and> password s \<noteq> []"
  by (auto simp add: isFormValid_def isPasswordValid_def)

lemma valid_filled [simp]: "isFormValid (st filled)"
  by (simp add: isFormValid_iff filled_def)

text \<open>
  The handler run to completion is its first part followed, when a request went out, by
  its resumed part.
\<close>

lemma handleSubmit_split:
  "handleSubmit net w =
     (case handleSubmit_start w of
        (None, w1) \<Rightarrow> (Inr (), w1)
      | (Some req, w1) \<Rightarrow> handleSubmit_resume net w1)"
  by (simp add: handleSubmit_def handleSubmit_start_def handleSubmit_resume_def js_defs Let_def
      split: prod.splits sum.splits fetch_result.splits)

lemma start_valid:
  "isFormValid (st w) \<Longrightarrow> handleSubmit_start w =
     (Some \<lparr>req_username = username (st w), req_password = password (st w)\<rparr>,
      w\<lparr>st := (st w)\<lparr>apiError := None, isLoading := True\<rparr>,
         fetches := fetches w @
           [\<lparr>req_username = username (st w), req_password = password (st w)\<rparr>]\<rparr>)"
  by (simp add: handleSubmit_start_def js_defs Let_def)

lemma start_created: "created (snd (handleSubmit_start w)) = created w"
  by (simp add: handleSubmit_start_def js_defs Let_def)

lemma handleSubmit_invalid:
  "\<not> isFormValid (st w) \<Longrightarrow>
     handleSubmit net w = (Inr (), w\<lparr>st := (st w)\<lparr>apiError := None\<rparr>\<rparr>)"
  by (simp add: handleSubmit_def js_defs)

lemma handleSubmit_valid:
  "isFormValid (st w) \<Longrightarrow> handleSubmit net w =
     handleSubmit_resume net
       (w\<lparr>st := (st w)\<lparr>apiError := None, isLoading := True\<rparr>,
          fetches := fetches w @
            [\<lparr>req_username = username (st w), req_password = password (st w)\<rparr>]\<rparr>)"
  by (simp add: handleSubmit_split start_valid)

text \<open>
  The handler does not read \<open>isLoading\<close>: run on a valid form it sends a request, also
  while an earlier one is in flight. Only the disabled button keeps it from running then.
\<close>

lemma handleSubmit_sends_when_valid:
  "isFormValid (st w) \<Longrightarrow> fetches (snd (handleSubmit_start w)) =
     fetches w @ [\<lparr>req_username = username (st w), req_password = password (st w)\<rparr>]"
  by (simp add: start_valid)

lemma on_response_ok:
  "ok r \<Longrightarrow> on_response r w = (Inr (), w\<lparr>created := created w @ [True]\<rparr>)"
  by (simp add: on_response_def js_defs)

text \<open>
  The condition of the second branch is true exactly on the second row of
  \<open>lastError_table\<close>; where it throws or is false the row does not apply.
\<close>

lemma is_not_allowed_table:
  "is_not_allowed r (json_or_empty r) = Inr True \<longleftrightarrow>
     status r = 400 \<and>
     ((case message_string (json_body r) of
         Some m \<Rightarrow> sublist (js ''not allowed'') m
       | None \<Rightarrow> False) \<or>
      (case message_array (json_body r) of
         Some xs \<Rightarrow> JString (js ''not allowed'') \<in> set xs
       | None \<Rightarrow> False))"
proof (cases "json_body r")
  case None
  then show ?thesis by (simp add: is_not_allowed_def json_or_empty_def)
next
  case (Some v)
  show ?thesis
  proof (cases v)
    case (JObject kvs)
    show ?thesis
    proof (cases "map_of kvs (js ''message'')")
      case None
      with Some JObject show ?thesis by (simp add: is_not_allowed_def json_or_empty_def)
    next
      case (Some m)
      with \<open>json_body r = Some v\<close> JObject show ?thesis
        by (cases m)
           (auto simp add: is_not_allowed_def json_or_empty_def string_includes_sublist
              list_ex_iff)
    qed
  qed (use Some in \<open>simp_all add: is_not_allowed_def json_or_empty_def\<close>)
qed

lemma table_unparseable:
  "lastError_table code None =
     (if code = 401 \<or> code = 403 then ''Not authenticated to access this resource.''
      else ''Something went wrong, please try again.'')"
  by (simp add: lastError_table_def)

lemma table_TypeError:
  assumes "is_not_allowed r (json_or_empty r) = Inl e"
  shows "lastError_table (status r) (json_body r) = ''Something went wrong, please try again.''"
proof -
  from assms have s: "status r = 400"
    by (simp add: is_not_allowed_def split: if_splits)
  from assms have "is_not_allowed r (json_or_empty r) \<noteq> Inr True" by simp
  then show ?thesis
    unfolding is_not_allowed_table using s by (simp add: lastError_table_def)
qed

text \<open>The resumed part, by the way the fetch settles.\<close>

lemma resume_rejects:
  "handleSubmit_resume Rejects w =
     (Inr (), w\<lparr>st := (st w)\<lparr>apiError := Some ''Something went wrong, please try again.'',
                               isLoading := False\<rparr>\<rparr>)"
  by (simp add: handleSubmit_resume_def js_defs)

lemma resume_ok:
  "ok r \<Longrightarrow> handleSubmit_resume (Resolves r) w =
     (Inr (), w\<lparr>st := (st w)\<lparr>isLoading := False\<rparr>, created := created w @ [True]\<rparr>)"
  by (simp add: handleSubmit_resume_def on_response_ok js_defs)

lemma resume_not_ok:
  assumes "\<not> ok r"
  shows "handleSubmit_resume (Resolves r) w =
     (Inr (), w\<lparr>st := (st w)\<lparr>apiError := Some (lastError_table (status r) (json_body r)),
                               isLoading := False\<rparr>\<rparr>)"
proof (cases "status r = 401 \<or> status r = 403")
  case True
  with assms show ?thesis
    by (auto simp add: handleSubmit_resume_def on_response_def js_defs lastError_table_def
        Let_def)
next
  case False
  show ?thesis
  proof (cases "is_not_allowed r (json_or_empty r)")
    case (Inl e)
    then have "is_not_allowed r (json_or_empty r) \<noteq> Inr True" by simp
    with False Inl assms show ?thesis
      unfolding is_not_allowed_table
      by (simp add: handleSubmit_resume_def on_response_def js_defs lastError_table_def Let_def)
  next
    case (Inr b)
    show ?thesis
    proof (cases b)
      case True
      with Inr have t: "is_not_allowed r (json_or_empty r) = Inr True" by simp
      from t [unfolded is_not_allowed_table] t False assms show ?thesis
        by (simp add: handleSubmit_resume_def on_response_def js_defs lastError_table_def
            Let_def)
    next
      case F: False
      with Inr have t: "is_not_allowed r (json_or_empty r) \<noteq> Inr True" by simp
      from t [unfolded is_not_allowed_table] Inr F False assms show ?thesis
        by (simp add: handleSubmit_resume_def on_response_def js_defs lastError_table_def
            Let_def)
    qed
  qed
qed

lemma resume_not_loading: "\<not> isLoading (st (snd (handleSubmit_resume net w)))"
proof (cases net)
  case Rejects
  then show ?thesis by (simp add: resume_rejects)
next
  case (Resolves r)
  then show ?thesis by (cases "ok r") (simp_all add: resume_ok resume_not_ok)
qed

lemma resume_returns: "fst (handleSubmit_resume net w) = Inr ()"
proof (cases net)
  case Rejects
  then show ?thesis by (simp add: resume_rejects)
next
  case (Resolves r)
  then show ?thesis by (cases "ok r") (simp_all add: resume_ok resume_not_ok)
qed

lemma resume_created:
  "created (snd (handleSubmit_resume net w)) =
     created w @ (case net of Rejects \<Rightarrow> [] | Resolves r \<Rightarrow> if ok r then [True] else [])"
proof (cases net)
  case Rejects
  then show ?thesis by (simp add: resume_rejects)
next
  case (Resolves r)
  then show ?thesis by (cases "ok r") (simp_all add: resume_ok resume_not_ok)
qed

lemma handleSubmit_returns: "fst (handleSubmit net w) = Inr ()"
  by (cases "isFormValid (st w)")
     (simp_all add: handleSubmit_valid handleSubmit_invalid resume_returns)

lemma sublist_not_allowed: "sublist (js ''not allowed'') (js ''password not allowed'')"
proof -
  have "js ''password not allowed'' = js ''password '' @ js ''not allowed'' @ []"
    by (simp add: js_def)
  then show ?thesis unfolding sublist_def by blast
qed

subsection \<open>Events of the mounted form\<close>

lemmas ui_eval = initial_def filled_def input_disabled_def button_disabled_def setUsername_def
  setPassword_def start_valid isFormValid_iff resume_ok resume_not_ok resume_rejects ok_def


lemma stale_reachable:
  "view (run [ChangeUsername alice, ChangePassword good_password, SubmitClick,
              FetchSettles Rejects, ChangeUsername []] initial) = stale"
  by (simp add: ui_eval stale_def)








lemma only_true_step:
  "False \<notin> set (created (view c)) \<Longrightarrow> False \<notin> set (created (view (ui_step e c)))"
proof (cases e)
  case SubmitClick
  assume "False \<notin> set (created (view c))"
  then show ?thesis using SubmitClick start_created [of "view c"]
    by (auto split: prod.splits option.splits)
next
  case (FetchSettles net)
  assume "False \<notin> set (created (view c))"
  then show ?thesis using FetchSettles
    by (cases "inflight c") (auto simp add: resume_created split: fetch_result.splits)
qed (simp_all add: setUsername_def setPassword_def)

lemma only_true_run:
  "False \<notin> set (created (view c)) \<Longrightarrow> False \<notin> set (created (view (run es c)))"
  by (induction es arbitrary: c) (simp_all add: only_true_step del: ui_step.simps)

section \<open>The claims about submission\<close>

subsection \<open>Classification of a failed reply\<close>

text \<open>
  The table as the specification words it fails on one kind of reply. With status 400 and
  the body \<^verbatim>\<open>{"message": ["not allowed"]}\<close> the message field is an array, so
  \<^verbatim>\<open>includes\<close> is \<^verbatim>\<open>Array.prototype.includes\<close> and answers true: the handler sets
  the password message, where the table, finding no substring in a field that is not a
  string, gives the general one.
\<close>

theorem classification_array_counterexample:
  "apiError (st (snd (handleSubmit (Resolves array_reply) filled))) =
     Some ''Sorry, the entered password is not allowed, please try a different one.'' \<and>
   spec_lastError (status array_reply) (json_body array_reply) =
     ''Something went wrong, please try again.'' \<and>
   apiError (st (snd (handleSubmit (Resolves array_reply) filled))) \<noteq>
     Some (spec_lastError (status array_reply) (json_body array_reply))"
  by (simp add: handleSubmit_valid resume_not_ok ok_def array_reply_def lastError_table_def
      spec_lastError_def)

text \<open>
  Claim C2, amended. For every reply that is not ok, the handler of a valid form ends
  with \<open>apiError\<close> set by this table, read in this order: status 401 or 403 gives the
  authentication message; otherwise status 400 with a message field that is a string
  containing \<^verbatim>\<open>not allowed\<close>, or an array with the string \<^verbatim>\<open>not allowed\<close> as an
  element, gives the password message; otherwise (status 500, any other status, a body
  that does not parse, a body on which reading the field throws) the general message.
  Where the message field is not an array this is the table of the specification.
\<close>

theorem classification_table:
  assumes "isFormValid (st w)" and "\<not> ok r"
  shows "apiError (st (snd (handleSubmit (Resolves r) w))) =
           Some (lastError_table (status r) (json_body r)) \<and>
         (message_array (json_body r) = None \<longrightarrow>
            lastError_table (status r) (json_body r) =
              spec_lastError (status r) (json_body r))"
proof
  show "apiError (st (snd (handleSubmit (Resolves r) w))) =
      Some (lastError_table (status r) (json_body r))"
    using assms by (simp add: handleSubmit_valid resume_not_ok)
  show "message_array (json_body r) = None \<longrightarrow>
      lastError_table (status r) (json_body r) = spec_lastError (status r) (json_body r)"
    by (simp add: lastError_table_def spec_lastError_def)
qed

theorem classification_table_witness:
  "isFormValid (st filled) \<and> \<not> ok not_allowed_reply \<and>
   apiError (st (snd (handleSubmit (Resolves not_allowed_reply) filled))) =
     Some ''Sorry, the entered password is not allowed, please try a different one.'' \<and>
   apiError (st (snd (handleSubmit (Resolves garbage_401) filled))) =
     Some ''Not authenticated to access this resource.''"
proof -
  have a: "isFormValid (st filled)" by simp
  have b: "\<not> ok not_allowed_reply" and b': "\<not> ok garbage_401"
    by (simp_all add: ok_def not_allowed_reply_def garbage_401_def)
  have c: "lastError_table (status not_allowed_reply) (json_body not_allowed_reply) =
      ''Sorry, the entered password is not allowed, please try a different one.''"
    by (simp add: lastError_table_def not_allowed_reply_def sublist_not_allowed)
  have c': "lastError_table (status garbage_401) (json_body garbage_401) =
      ''Not authenticated to access this resource.''"
    by (simp add: lastError_table_def garbage_401_def)
  from classification_table [OF a b] classification_table [OF a b'] a b c c'
  show ?thesis by simp
qed

subsection \<open>One submission at a time\<close>




subsection \<open>A submit that is not valid\<close>

text \<open>
  \<^verbatim>\<open>handleSubmit\<close> calls \<^verbatim>\<open>setApiError(null)\<close> before it tests \<^verbatim>\<open>isFormValid\<close>. In
  the state \<open>stale\<close> (reached by a failed submission after which the username was
  emptied) the form is not valid and shows an error; the handler run there returns at
  the test, and the error is gone.
\<close>

theorem handleSubmit_invalid_counterexample:
  "\<not> isFormValid (st stale) \<and>
   apiError (st stale) = Some ''Something went wrong, please try again.'' \<and>
   apiError (st (snd (handleSubmit Rejects stale))) = None \<and>
   snd (handleSubmit Rejects stale) \<noteq> stale"
  by (simp add: handleSubmit_invalid isFormValid_iff stale_def)

text \<open>
  Claim C4, amended. When the form is not valid (the username is blank after trimming,
  or the password is empty or has unmet rules), \<^verbatim>\<open>handleSubmit\<close> sets \<open>apiError\<close> to
  null and changes nothing else: username, password and \<open>isLoading\<close> are as before, no
  request is sent and \<^verbatim>\<open>setUserWasCreated\<close> is not called. A submission in flight is not
  tested by the handler but by the button: while the button is disabled (\<open>isLoading\<close>, or
  the form not valid) a submit gesture changes no state at all.
\<close>

theorem handleSubmit_not_valid:
  "(\<not> isFormValid (st w) \<longrightarrow>
      handleSubmit net w = (Inr (), w\<lparr>st := (st w)\<lparr>apiError := None\<rparr>\<rparr>)) \<and>
   (isLoading (st (view c)) \<or> \<not> isFormValid (st (view c)) \<longrightarrow> ui_step SubmitClick c = c)"
proof
  show "\<not> isFormValid (st w) \<longrightarrow>
      handleSubmit net w = (Inr (), w\<lparr>st := (st w)\<lparr>apiError := None\<rparr>\<rparr>)"
    by (simp add: handleSubmit_invalid)
  show "isLoading (st (view c)) \<or> \<not> isFormValid (st (view c)) \<longrightarrow> ui_step SubmitClick c = c"
    by (simp add: button_disabled_def)
qed

theorem handleSubmit_not_valid_witness:
  "\<not> isFormValid (st stale) \<and>
   handleSubmit Rejects stale = (Inr (), stale\<lparr>st := (st stale)\<lparr>apiError := None\<rparr>\<rparr>) \<and>
   ui_step SubmitClick \<lparr>view = stale, inflight = []\<rparr> = \<lparr>view = stale, inflight = []\<rparr>"
proof -
  have a: "\<not> isFormValid (st stale)"
    by (simp add: isFormValid_iff stale_def)
  from handleSubmit_not_valid [of stale Rejects "\<lparr>view = stale, inflight = []\<rparr>"] a
  show ?thesis by (simp del: ui_step.simps)
qed

subsection \<open>Success\<close>

text \<open>
  The component has no state for a finished submission: after a 2xx reply it is idle
  again with the button enabled. If its owner leaves it mounted, a second click sends a
  second request, and a second 2xx reply calls \<^verbatim>\<open>setUserWasCreated(true)\<close> a second
  time.
\<close>

theorem success_not_terminal_counterexample:
  "created (view (run [ChangeUsername alice, ChangePassword good_password,
                       SubmitClick, FetchSettles (Resolves ok_reply),
                       SubmitClick, FetchSettles (Resolves ok_reply)] initial)) =
     [True, True] \<and>
   length (fetches (view (run [ChangeUsername alice, ChangePassword good_password,
                       SubmitClick, FetchSettles (Resolves ok_reply),
                       SubmitClick, FetchSettles (Resolves ok_reply)] initial))) = 2"
  by (simp add: ui_eval ok_reply_def)

text \<open>
  Claim C5, amended. On every 2xx reply, whatever its body, the handler of a valid form
  calls \<^verbatim>\<open>setUserWasCreated(true)\<close> exactly once in that submission and ends with
  \<open>apiError\<close> null and \<open>isLoading\<close> false; beyond the one request it sent, nothing else
  changes. The component records no success of its own: it is then idle with its button
  enabled, and further submissions are excluded only if the owner unmounts it.
\<close>

theorem handleSubmit_success:
  assumes "isFormValid (st w)" and "ok r"
  shows "handleSubmit (Resolves r) w =
           (Inr (), w\<lparr>st := (st w)\<lparr>apiError := None, isLoading := False\<rparr>,
                      fetches := fetches w @
                        [\<lparr>req_username = username (st w), req_password = password (st w)\<rparr>],
                      created := created w @ [True]\<rparr>) \<and>
         \<not> button_disabled (st (snd (handleSubmit (Resolves r) w)))"
proof -
  have "handleSubmit (Resolves r) w =
           (Inr (), w\<lparr>st := (st w)\<lparr>apiError := None, isLoading := False\<rparr>,
                      fetches := fetches w @
                        [\<lparr>req_username = username (st w), req_password = password (st w)\<rparr>],
                      created := created w @ [True]\<rparr>)"
    using assms by (simp add: handleSubmit_valid resume_ok)
  moreover from this assms(1)
  have "\<not> button_disabled (st (snd (handleSubmit (Resolves r) w)))"
    by (simp add: button_disabled_def isFormValid_iff)
  ultimately show ?thesis by blast
qed

theorem handleSubmit_success_witness:
  "isFormValid (st filled) \<and> ok ok_reply \<and>
   created (snd (handleSubmit (Resolves ok_reply) filled)) = [True] \<and>
   apiError (st (snd (handleSubmit (Resolves ok_reply) filled))) = None \<and>
   isLoading (st (snd (handleSubmit (Resolves ok_reply) filled))) = False"
proof -
  have a: "isFormValid (st filled)" by simp
  have b: "ok ok_reply" by (simp add: ok_def ok_reply_def)
  from handleSubmit_success [OF a b] a b show ?thesis
    by (simp add: filled_def)
qed

subsection \<open>No exception leaves the handler\<close>

text \<open>
  The precedence of the table covers a body that does not parse: it is replaced by the
  empty object before the status is looked at, so a 401 reply gets the authentication
  message whatever its body, as the first row of the table says.
\<close>

lemma parse_failure_401:
  "\<not> ok garbage_401 \<and> json_body garbage_401 = None \<and>
   apiError (st (snd (handleSubmit (Resolves garbage_401) filled))) =
     Some (spec_lastError (status garbage_401) (json_body garbage_401)) \<and>
   spec_lastError (status garbage_401) (json_body garbage_401) =
     ''Not authenticated to access this resource.''"
  by (simp add: handleSubmit_valid resume_not_ok ok_def garbage_401_def lastError_table_def
      spec_lastError_def)

text \<open>
  Claim C6. The handler's promise never rejects, whatever the form state and however the
  fetch settles. A failed reply whose body does not parse raises nothing: the handler
  sets the message the specification's table gives for an un-parseable body, which is the
  default message \<^verbatim>\<open>Something went wrong, please try again.\<close> on every status that the
  table does not rank above it (every status but 401 and 403). A TypeError thrown while
  the message field is read is caught and gives the default message. A rejected fetch
  (transport failure) gives the default message and sets \<open>isLoading\<close> to false, all else
  unchanged.
\<close>

theorem no_exception_escapes:
  "fst (handleSubmit net w) = Inr () \<and>
   (isFormValid (st w) \<longrightarrow>
      st (snd (handleSubmit Rejects w)) =
        (st w)\<lparr>apiError := Some ''Something went wrong, please try again.'',
               isLoading := False\<rparr> \<and>
      (\<not> ok r \<and> json_body r = None \<longrightarrow>
         apiError (st (snd (handleSubmit (Resolves r) w))) =
           Some (spec_lastError (status r) (json_body r)) \<and>
         (status r \<noteq> 401 \<and> status r \<noteq> 403 \<longrightarrow>
            apiError (st (snd (handleSubmit (Resolves r) w))) =
              Some ''Something went wrong, please try again.'')) \<and>
      (\<not> ok r \<and> is_not_allowed r (json_or_empty r) = Inl e \<longrightarrow>
         apiError (st (snd (handleSubmit (Resolves r) w))) =
           Some ''Something went wrong, please try again.''))"
proof -
  have 1: "fst (handleSubmit net w) = Inr ()"
    by (rule handleSubmit_returns)
  have 2: "st (snd (handleSubmit Rejects w)) =
      (st w)\<lparr>apiError := Some ''Something went wrong, please try again.'',
             isLoading := False\<rparr>" if "isFormValid (st w)"
    using that by (simp add: handleSubmit_valid resume_rejects)
  have 3: "apiError (st (snd (handleSubmit (Resolves r) w))) =
      Some (lastError_table (status r) (json_body r))" if "isFormValid (st w)" "\<not> ok r"
    using that by (simp add: handleSubmit_valid resume_not_ok)
  have 4: "lastError_table (status r) (json_body r) = spec_lastError (status r) (json_body r)"
    if "json_body r = None"
    using that by (simp add: lastError_table_def spec_lastError_def)
  have 5: "spec_lastError (status r) (json_body r) = ''Something went wrong, please try again.''"
    if "json_body r = None" "status r \<noteq> 401" "status r \<noteq> 403"
    using that by (simp add: spec_lastError_def)
  have 6: "lastError_table (status r) (json_body r) = ''Something went wrong, please try again.''"
    if "is_not_allowed r (json_or_empty r) = Inl e"
    using that by (rule table_TypeError)
  from 1 2 3 4 5 6 show ?thesis by simp
qed

theorem no_exception_escapes_witness:
  "isFormValid (st filled) \<and> \<not> ok garbage_400 \<and> json_body garbage_400 = None \<and>
   fst (handleSubmit (Resolves garbage_400) filled) = Inr () \<and>
   apiError (st (snd (handleSubmit (Resolves garbage_400) filled))) =
     Some ''Something went wrong, please try again.'' \<and>
   \<not> ok null_400 \<and> is_not_allowed null_400 (json_or_empty null_400) = Inl TypeError \<and>
   fst (handleSubmit (Resolves null_400) filled) = Inr () \<and>
   apiError (st (snd (handleSubmit (Resolves null_400) filled))) =
     Some ''Something went wrong, please try again.'' \<and>
   fst (handleSubmit Rejects filled) = Inr () \<and>
   apiError (st (snd (handleSubmit Rejects filled))) =
     Some ''Something went wrong, please try again.'' \<and>
   isLoading (st (snd (handleSubmit Rejects filled))) = False"
proof -
  have a: "isFormValid (st filled)" by simp
  have b: "\<not> ok garbage_400 \<and> json_body garbage_400 = None \<and> status garbage_400 = 400"
    by (simp add: ok_def garbage_400_def)
  have c: "\<not> ok null_400 \<and> is_not_allowed null_400 (json_or_empty null_400) = Inl TypeError"
    by (simp add: ok_def null_400_def is_not_allowed_def json_or_empty_def)
  from no_exception_escapes [of "Resolves garbage_400" filled garbage_400 TypeError]
    no_exception_escapes [of "Resolves null_400" filled null_400 TypeError]
    no_exception_escapes [of Rejects filled garbage_400 TypeError] a b c
  show ?thesis by simp
qed

subsection \<open>The loading flag is always cleared\<close>

text \<open>
  Claim C7. A handler that gets past the validity check sets \<open>isLoading\<close>, and however
  its fetch settles (a 2xx reply, a failed reply of any status and body, a rejection) it
  returns normally with \<open>isLoading\<close> false. The same holds for the resumed part run in any
  state, so nothing that happens during the await can leave the flag set.
\<close>

theorem submitting_is_left:
  assumes "isFormValid (st w)"
  shows "isLoading (st (snd (handleSubmit_start w))) \<and>
         fst (handleSubmit net w) = Inr () \<and>
         \<not> isLoading (st (snd (handleSubmit net w))) \<and>
         \<not> isLoading (st (snd (handleSubmit_resume net w')))"
proof -
  from assms have "isLoading (st (snd (handleSubmit_start w)))"
    by (simp add: start_valid)
  moreover have "fst (handleSubmit net w) = Inr ()"
    by (rule handleSubmit_returns)
  moreover from assms have "\<not> isLoading (st (snd (handleSubmit net w)))"
    by (simp add: handleSubmit_valid resume_not_loading)
  moreover have "\<not> isLoading (st (snd (handleSubmit_resume net w')))"
    by (rule resume_not_loading)
  ultimately show ?thesis by blast
qed

theorem submitting_is_left_witness:
  "isFormValid (st filled) \<and>
   isLoading (st (snd (handleSubmit_start filled))) \<and>
   \<not> isLoading (st (snd (handleSubmit (Resolves garbage_400) filled))) \<and>
   \<not> isLoading (st (snd (handleSubmit Rejects filled)))"
proof -
  have a: "isFormValid (st filled)" by simp
  from submitting_is_left [OF a, of "Resolves garbage_400" filled]
    submitting_is_left [OF a, of Rejects filled] a
  show ?thesis by simp
qed

subsection \<open>The success callback\<close>

text \<open>
  Claim C10. \<^verbatim>\<open>setUserWasCreated\<close> is called only with \<^verbatim>\<open>true\<close> and only on the 2xx
  branch: one run of the handler appends \<open>True\<close> to the calls when the form is valid and
  the reply is ok, and appends nothing on a rejected fetch, a failed reply or a form that
  is not valid. Over every sequence of events of a mounted form the value \<open>False\<close> is
  never passed.
\<close>

theorem created_only_true_on_2xx:
  "created (snd (handleSubmit net w)) =
     created w @ (case net of
                    Rejects \<Rightarrow> []
                  | Resolves r \<Rightarrow> if isFormValid (st w) \<and> ok r then [True] else []) \<and>
   False \<notin> set (created (view (run es initial)))"
proof
  show "created (snd (handleSubmit net w)) =
     created w @ (case net of
                    Rejects \<Rightarrow> []
                  | Resolves r \<Rightarrow> if isFormValid (st w) \<and> ok r then [True] else [])"
    by (cases "isFormValid (st w)")
       (simp_all add: handleSubmit_valid handleSubmit_invalid resume_created
          split: fetch_result.splits)
  show "False \<notin> set (created (view (run es initial)))"
    by (rule only_true_run) (simp add: initial_def)
qed

theorem created_only_true_on_2xx_witness:
  "created (snd (handleSubmit (Resolves garbage_401) filled)) = [] \<and>
   created (snd (handleSubmit Rejects filled)) = [] \<and>
   created (snd (handleSubmit (Resolves ok_reply) filled)) = [True]"
  using created_only_true_on_2xx [of "Resolves garbage_401" filled "[]"]
    created_only_true_on_2xx [of Rejects filled "[]"]
    created_only_true_on_2xx [of "Resolves ok_reply" filled "[]"]
  by (simp add: ok_def garbage_401_def ok_reply_def filled_def isFormValid_iff)

end
